theory Spec2Isabelle
  imports Main "HOL-Library.AList"
begin

section \<open>JavaScript values\<close>

text \<open>
  The handlers of \<^verbatim>\<open>sam-backend-todo-app/src/todos.js\<close> work on decoded JSON
  documents. A value is one of the JSON kinds, or \<open>JUndefined\<close> for a property that
  is not there. Numbers are restricted to the integers: the handlers only ask whether a
  number is a string (never) and whether it is zero. A \<open>char\<close> stands for one code unit
  below 256; an object is the list of its own properties in insertion order, looked up
  with \<open>map_of\<close>.
\<close>

datatype jsval =
    JUndefined
  | JNull
  | JBool bool
  | JNum int
  | JStr string
  | JArr "jsval list"
  | JObj "(string \<times> jsval) list"

type_synonym obj = "(string \<times> jsval) list"

fun typeof :: "jsval \<Rightarrow> string" where
  "typeof JUndefined = ''undefined''"
| "typeof JNull = ''object''"
| "typeof (JBool b) = ''boolean''"
| "typeof (JNum n) = ''number''"
| "typeof (JStr s) = ''string''"
| "typeof (JArr vs) = ''object''"
| "typeof (JObj kvs) = ''object''"

text \<open>\<open>falsy v\<close> is the JavaScript test \<^verbatim>\<open>!v\<close>.\<close>

fun falsy :: "jsval \<Rightarrow> bool" where
  "falsy JUndefined = True"
| "falsy JNull = True"
| "falsy (JBool b) = (b = False)"
| "falsy (JNum n) = (n = 0)"
| "falsy (JStr s) = (s = [])"
| "falsy (JArr vs) = False"
| "falsy (JObj kvs) = False"

text \<open>
  Reading a property of \<^verbatim>\<open>null\<close> or \<^verbatim>\<open>undefined\<close> throws a TypeError; on any
  other value the properties the handlers read (\<^verbatim>\<open>title\<close>, \<^verbatim>\<open>description\<close>,
  \<^verbatim>\<open>status\<close>) are own properties of an object and absent everywhere else.
\<close>

fun nullish :: "jsval \<Rightarrow> bool" where
  "nullish JUndefined = True"
| "nullish JNull = True"
| "nullish v = False"

fun property :: "jsval \<Rightarrow> string \<Rightarrow> jsval" where
  "property (JObj kvs) k = (case map_of kvs k of None \<Rightarrow> JUndefined | Some v \<Rightarrow> v)"
| "property v k = JUndefined"

text \<open>
  \<^verbatim>\<open>String.prototype.trim\<close> removes white space and line terminators from both ends;
  below code unit 256 these are U+0009 to U+000D, U+0020 and U+00A0.
\<close>

definition is_white_space :: "char \<Rightarrow> bool" where
  "is_white_space c = ((of_char c :: nat) \<in> {9, 10, 11, 12, 13, 32, 160})"

definition trim :: "string \<Rightarrow> string" where
  "trim s = rev (dropWhile is_white_space (rev (dropWhile is_white_space s)))"

text \<open>\<open>blank_or_not_string v\<close> is \<^verbatim>\<open>typeof v !== 'string' || v.trim() === ''\<close>.\<close>

fun blank_or_not_string :: "jsval \<Rightarrow> bool" where
  "blank_or_not_string (JStr s) = (trim s = [])"
| "blank_or_not_string v = True"

fun starts_with :: "string \<Rightarrow> string \<Rightarrow> bool" where
  "starts_with s [] = True"
| "starts_with [] (p # ps) = False"
| "starts_with (c # cs) (p # ps) = (c = p \<and> starts_with cs ps)"

text \<open>\<open>includes_str s part\<close> is \<^verbatim>\<open>s.includes(part)\<close>: \<open>part\<close> occurs in \<open>s\<close>.\<close>

fun includes_str :: "string \<Rightarrow> string \<Rightarrow> bool" where
  "includes_str [] part = (part = [])"
| "includes_str (c # cs) part = (starts_with (c # cs) part \<or> includes_str cs part)"

section \<open>Errors thrown inside a handler\<close>

text \<open>
  Three kinds of exception reach the \<^verbatim>\<open>catch\<close> blocks: the TypeError of a property
  read on \<^verbatim>\<open>null\<close>, the SyntaxError of \<^verbatim>\<open>JSON.parse\<close>, and whatever
  \<^verbatim>\<open>docClient.send\<close> rejects with, an error object with a name and a message.
\<close>

datatype js_error =
    TypeError
  | SyntaxError
  | StoreError string string

text \<open>
  The test of the update handler's \<^verbatim>\<open>catch\<close>:
  \<^verbatim>\<open>error.name === 'ValidationException' && error.message.includes('The provided key element does not match the schema')\<close>.
  The errors thrown by the engine are named TypeError and SyntaxError, so for them the
  name test fails before the message is read.
\<close>

fun is_key_schema_mismatch :: "js_error \<Rightarrow> bool" where
  "is_key_schema_mismatch (StoreError name message) =
     (name = ''ValidationException'' \<and>
      includes_str message ''The provided key element does not match the schema'')"
| "is_key_schema_mismatch e = False"

section \<open>Requests, responses and the store client\<close>

text \<open>
  The Lambda proxy event: \<^verbatim>\<open>event.requestContext?.authorizer?.claims?.sub\<close>,
  \<^verbatim>\<open>event.pathParameters.id\<close> and \<^verbatim>\<open>event.body\<close>. \<open>None\<close> is a
  property that is \<^verbatim>\<open>null\<close> or missing. The body keeps the three cases apart
  because \<^verbatim>\<open>JSON.parse\<close> does.
\<close>

record authorizer_ctx =
  claims :: "(string \<times> string) list option"

record request_context =
  authorizer :: "authorizer_ctx option"

datatype body_field = BodyUndefined | BodyNull | BodyText string

record event =
  requestContext :: "request_context option"
  pathParameters :: "(string \<times> string) list option"
  body :: body_field

record response =
  statusCode :: nat
  headers :: "(string \<times> string) list"
  res_body :: jsval

text \<open>
  What a handler invocation takes from its surroundings: the text parser behind
  \<^verbatim>\<open>JSON.parse\<close> (\<open>None\<close> when it throws a SyntaxError), the identifier that
  \<^verbatim>\<open>uuidv4()\<close> returns, the result of \<^verbatim>\<open>new Date().toISOString()\<close>, and
  \<^verbatim>\<open>process.env.TODOS_TABLE_NAME\<close>. Each handler calls each of them at most once.
\<close>

record env =
  JSON_parse :: "string \<Rightarrow> jsval option"
  uuidv4 :: string
  toISOString :: string
  TODOS_TABLE_NAME :: "string option"

text \<open>
  The commands handed to \<^verbatim>\<open>docClient.send\<close>, with the fields of their
  \<^verbatim>\<open>params\<close> objects in the order of the source:
  \<^item> \<open>PutCommand TableName Item\<close>
  \<^item> \<open>QueryCommand TableName KeyConditionExpression ExpressionAttributeValues\<close>
  \<^item> \<open>UpdateCommand TableName Key UpdateExpression ExpressionAttributeValues ReturnValues ExpressionAttributeNames\<close>
  \<^item> \<open>DeleteCommand TableName Key ReturnValues\<close>
\<close>

datatype command =
    PutCommand "string option" obj
  | QueryCommand "string option" string obj
  | UpdateCommand "string option" obj string obj string "(string \<times> string) list"
  | DeleteCommand "string option" obj string

record send_output =
  Attributes :: "obj option"
  Items :: "obj list option"

text \<open>
  \<^verbatim>\<open>docClient.send\<close> is a parameter of the handlers: it takes a command and the state
  of the store and gives the rejection or the output, and the state afterwards. A handler
  returns its response together with the commands it issued and the store it leaves.
\<close>

type_synonym 'st sender = "command \<Rightarrow> 'st \<Rightarrow> (js_error + send_output) \<times> 'st"

record 'st outcome =
  resp :: response
  issued :: "command list"
  store :: 'st

definition generateResponse :: "nat \<Rightarrow> jsval \<Rightarrow> response" where
  "generateResponse code b =
     \<lparr> statusCode = code,
       headers =
         [(''Content-Type'', ''application/json''),
          (''Access-Control-Allow-Origin'', ''*''),
          (''Access-Control-Allow-Methods'', ''GET,POST,PUT,DELETE,OPTIONS''),
          (''Access-Control-Allow-Headers'',
           ''Content-Type,X-Amz-Date,Authorization,X-Api-Key,X-Amz-Security-Token'')],
       res_body = b \<rparr>"

text \<open>
  \<open>res_body\<close> is the value that \<^verbatim>\<open>generateResponse\<close> hands to
  \<^verbatim>\<open>JSON.stringify\<close>; the serialisation is the engine's.
\<close>

definition message :: "string \<Rightarrow> jsval" where
  "message m = JObj [(''message'', JStr m)]"

definition claims_sub :: "event \<Rightarrow> string option" where
  "claims_sub ev =
     (case requestContext ev of
        None \<Rightarrow> None
      | Some rc \<Rightarrow>
          (case authorizer rc of
             None \<Rightarrow> None
           | Some a \<Rightarrow> (case claims a of None \<Rightarrow> None | Some cl \<Rightarrow> map_of cl ''sub'')))"

text \<open>
  \<^verbatim>\<open>JSON.parse(event.body)\<close> turns its argument into text first:
  \<^verbatim>\<open>undefined\<close> is not a JSON text, \<^verbatim>\<open>null\<close> reads as the JSON value null.
\<close>

definition JSON_parse_body :: "env \<Rightarrow> body_field \<Rightarrow> js_error + jsval" where
  "JSON_parse_body e b =
     (case b of
        BodyUndefined \<Rightarrow> Inl SyntaxError
      | BodyNull \<Rightarrow> Inr JNull
      | BodyText s \<Rightarrow> (case JSON_parse e s of None \<Rightarrow> Inl SyntaxError | Some v \<Rightarrow> Inr v))"

text \<open>\<^verbatim>\<open>event.pathParameters.id\<close>, a TypeError when there are no path parameters.\<close>

definition path_id :: "event \<Rightarrow> js_error + string option" where
  "path_id ev =
     (case pathParameters ev of None \<Rightarrow> Inl TypeError | Some pp \<Rightarrow> Inr (map_of pp ''id''))"

definition returning :: "'st \<Rightarrow> response \<Rightarrow> 'st outcome" where
  "returning st r = \<lparr> resp = r, issued = [], store = st \<rparr>"

definition unauthorized :: response where
  "unauthorized = generateResponse 401 (message ''Unauthorized: User ID not found in token.'')"

section \<open>createTodoHandler\<close>

text \<open>
  \<^verbatim>\<open>exports.createTodoHandler\<close>, lines 102 to 154 of \<^verbatim>\<open>todos.js\<close>. The
  \<^verbatim>\<open>try\<close> block is the body; every exception in it, thrown by the engine or by
  \<^verbatim>\<open>docClient.send\<close>, ends in \<open>create_catch\<close>.
\<close>

definition create_catch :: "js_error \<Rightarrow> response" where
  "create_catch error =
     generateResponse 500 (message ''Failed to create To-Do item. Please try again later.'')"

definition create_item :: "env \<Rightarrow> string \<Rightarrow> jsval \<Rightarrow> jsval \<Rightarrow> obj" where
  "create_item e userId title description =
     (let todoId = uuidv4 e; createdAt = toISOString e in
      [(''userId'', JStr userId),
       (''todoId'', JStr todoId),
       (''title'', title),
       (''description'', if falsy description then JStr [] else description),
       (''status'', JStr ''pending''),
       (''createdAt'', JStr createdAt),
       (''updatedAt'', JStr createdAt)])"

definition createTodoHandler :: "env \<Rightarrow> 'st sender \<Rightarrow> event \<Rightarrow> 'st \<Rightarrow> 'st outcome" where
  "createTodoHandler e send ev st =
     (case claims_sub ev of
        None \<Rightarrow> returning st unauthorized
      | Some userId \<Rightarrow>
          if userId = [] then returning st unauthorized
          else
            (case JSON_parse_body e (body ev) of
               Inl error \<Rightarrow> returning st (create_catch error)
             | Inr requestBody \<Rightarrow>
                 if nullish requestBody then returning st (create_catch TypeError)
                 else
                   (let title = property requestBody ''title'';
                        description = property requestBody ''description''
                    in
                      if falsy title \<or> blank_or_not_string title then
                        returning st (generateResponse 400
                          (message ''Title is required and must be a non-empty string.''))
                      else if \<not> falsy description \<and> typeof description \<noteq> ''string'' then
                        returning st (generateResponse 400
                          (message ''Description must be a string.''))
                      else
                        (let item = create_item e userId title description;
                             cmd = PutCommand (TODOS_TABLE_NAME e) item
                         in
                           (case send cmd st of
                              (Inl error, st') \<Rightarrow>
                                \<lparr> resp = create_catch error, issued = [cmd], store = st' \<rparr>
                            | (Inr data, st') \<Rightarrow>
                                \<lparr> resp = generateResponse 201
                                    (JObj [(''message'', JStr ''To-Do item created successfully.''),
                                           (''todo'', JObj item)]),
                                  issued = [cmd], store = st' \<rparr>)))))"

section \<open>getTodosHandler\<close>

text \<open>\<^verbatim>\<open>exports.getTodosHandler\<close>, lines 163 to 197.\<close>

definition get_catch :: "js_error \<Rightarrow> response" where
  "get_catch error =
     generateResponse 500 (message ''Failed to retrieve To-Do items. Please try again later.'')"

definition getTodosHandler :: "env \<Rightarrow> 'st sender \<Rightarrow> event \<Rightarrow> 'st \<Rightarrow> 'st outcome" where
  "getTodosHandler e send ev st =
     (case claims_sub ev of
        None \<Rightarrow> returning st unauthorized
      | Some userId \<Rightarrow>
          if userId = [] then returning st unauthorized
          else
            (let cmd = QueryCommand (TODOS_TABLE_NAME e) ''userId = :u'' [('':u'', JStr userId)]
             in
               (case send cmd st of
                  (Inl error, st') \<Rightarrow> \<lparr> resp = get_catch error, issued = [cmd], store = st' \<rparr>
                | (Inr data, st') \<Rightarrow>
                    (let todos = (case Items data of None \<Rightarrow> [] | Some xs \<Rightarrow> xs) in
                     \<lparr> resp = generateResponse 200 (JObj [(''todos'', JArr (map JObj todos))]),
                       issued = [cmd], store = st' \<rparr>))))"

section \<open>updateTodoHandler\<close>

text \<open>
  \<^verbatim>\<open>exports.updateTodoHandler\<close>, lines 210 to 294. \<open>builder\<close> holds its three
  accumulators. A validator that rejects its field returns the 400 response at once
  (\<open>Inl\<close>); for the title and the description that is after the field has been
  pushed, for the status before, as in the source.
\<close>

record builder =
  updateExpressions :: "string list"
  expressionAttributeValues :: obj
  expressionAttributeNames :: "(string \<times> string) list"

definition push_field :: "string \<Rightarrow> string \<Rightarrow> string \<Rightarrow> string \<Rightarrow> jsval \<Rightarrow> builder \<Rightarrow> builder" where
  "push_field clause alias attr placeholder v b =
     b \<lparr> updateExpressions := updateExpressions b @ [clause],
         expressionAttributeNames := AList.update alias attr (expressionAttributeNames b),
         expressionAttributeValues := AList.update placeholder v (expressionAttributeValues b) \<rparr>"

definition add_title :: "jsval \<Rightarrow> builder \<Rightarrow> response + builder" where
  "add_title title b =
     (if title = JUndefined then Inr b
      else
        (let b' = push_field ''#t = :t'' ''#t'' ''title'' '':t'' title b in
         if blank_or_not_string title then
           Inl (generateResponse 400 (message ''Title must be a non-empty string.''))
         else Inr b'))"

definition add_description :: "jsval \<Rightarrow> builder \<Rightarrow> response + builder" where
  "add_description description b =
     (if description = JUndefined then Inr b
      else
        (let b' = push_field ''#d = :d'' ''#d'' ''description'' '':d'' description b in
         if typeof description = ''string'' then Inr b'
         else Inl (generateResponse 400 (message ''Description must be a string.''))))"

definition add_status :: "jsval \<Rightarrow> builder \<Rightarrow> response + builder" where
  "add_status status b =
     (if status = JUndefined then Inr b
      else if status \<in> set [JStr ''pending'', JStr ''completed''] then
        Inr (push_field ''#s = :s'' ''#s'' ''status'' '':s'' status b)
      else Inl (generateResponse 400 (message ''Status must be 'pending' or 'completed'.'')))"

text \<open>
  \<^verbatim>\<open>updateExpressions.push('updatedAt = :ua')\<close> comes before the test
  \<^verbatim>\<open>updateExpressions.length === 0\<close>.
\<close>

definition add_updatedAt :: "env \<Rightarrow> builder \<Rightarrow> response + builder" where
  "add_updatedAt e b =
     (let b' = b \<lparr> updateExpressions := updateExpressions b @ [''updatedAt = :ua''],
                   expressionAttributeValues :=
                     AList.update '':ua'' (JStr (toISOString e)) (expressionAttributeValues b) \<rparr>
      in
        if length (updateExpressions b') = 0 then
          Inl (generateResponse 400 (message ''No valid fields provided for update.''))
        else Inr b')"

definition build_update :: "env \<Rightarrow> jsval \<Rightarrow> response + builder" where
  "build_update e requestBody =
     (let title = property requestBody ''title'';
          description = property requestBody ''description'';
          status = property requestBody ''status'';
          b0 = \<lparr> updateExpressions = [], expressionAttributeValues = [],
                 expressionAttributeNames = [] \<rparr>
      in
        (case add_title title b0 of
           Inl r \<Rightarrow> Inl r
         | Inr b1 \<Rightarrow>
             (case add_description description b1 of
                Inl r \<Rightarrow> Inl r
              | Inr b2 \<Rightarrow>
                  (case add_status status b2 of
                     Inl r \<Rightarrow> Inl r
                   | Inr b3 \<Rightarrow> add_updatedAt e b3))))"

text \<open>\<open>join sep xs\<close> is \<^verbatim>\<open>xs.join(sep)\<close>.\<close>

fun join :: "string \<Rightarrow> string list \<Rightarrow> string" where
  "join sep [] = []"
| "join sep [x] = x"
| "join sep (x # y # ys) = x @ sep @ join sep (y # ys)"

definition update_catch :: "js_error \<Rightarrow> response" where
  "update_catch error =
     (if is_key_schema_mismatch error then
        generateResponse 400 (message ''Invalid To-Do ID or data format.'')
      else
        generateResponse 500 (message ''Failed to update To-Do item. Please try again later.''))"

definition update_command :: "env \<Rightarrow> string \<Rightarrow> string \<Rightarrow> builder \<Rightarrow> command" where
  "update_command e userId todoId b =
     UpdateCommand (TODOS_TABLE_NAME e)
       [(''userId'', JStr userId), (''todoId'', JStr todoId)]
       (''SET '' @ join '', '' (updateExpressions b))
       (expressionAttributeValues b)
       ''ALL_NEW''
       (expressionAttributeNames b)"

definition updateTodoHandler :: "env \<Rightarrow> 'st sender \<Rightarrow> event \<Rightarrow> 'st \<Rightarrow> 'st outcome" where
  "updateTodoHandler e send ev st =
     (case claims_sub ev of
        None \<Rightarrow> returning st unauthorized
      | Some userId \<Rightarrow>
          if userId = [] then returning st unauthorized
          else
            (case path_id ev of
               Inl error \<Rightarrow> returning st (update_catch error)
             | Inr None \<Rightarrow> returning st (generateResponse 400 (message ''To-Do ID is required.''))
             | Inr (Some todoId) \<Rightarrow>
                 if todoId = [] then
                   returning st (generateResponse 400 (message ''To-Do ID is required.''))
                 else
                   (case JSON_parse_body e (body ev) of
                      Inl error \<Rightarrow> returning st (update_catch error)
                    | Inr requestBody \<Rightarrow>
                        if nullish requestBody then returning st (update_catch TypeError)
                        else
                          (case build_update e requestBody of
                             Inl r \<Rightarrow> returning st r
                           | Inr b \<Rightarrow>
                               (let cmd = update_command e userId todoId b in
                                (case send cmd st of
                                   (Inl error, st') \<Rightarrow>
                                     \<lparr> resp = update_catch error, issued = [cmd], store = st' \<rparr>
                                 | (Inr data, st') \<Rightarrow>
                                     (case Attributes data of
                                        None \<Rightarrow>
                                          \<lparr> resp = generateResponse 404
                                              (message ''To-Do item not found or unauthorized to update.''),
                                            issued = [cmd], store = st' \<rparr>
                                      | Some attrs \<Rightarrow>
                                          \<lparr> resp = generateResponse 200
                                              (JObj [(''message'', JStr ''To-Do item updated successfully.''),
                                                     (''todo'', JObj attrs)]),
                                            issued = [cmd], store = st' \<rparr>)))))))"

section \<open>deleteTodoHandler\<close>

text \<open>\<^verbatim>\<open>exports.deleteTodoHandler\<close>, lines 309 to 344.\<close>

definition delete_catch :: "js_error \<Rightarrow> response" where
  "delete_catch error =
     generateResponse 500 (message ''Failed to delete To-Do item. Please try again later.'')"

definition deleteTodoHandler :: "env \<Rightarrow> 'st sender \<Rightarrow> event \<Rightarrow> 'st \<Rightarrow> 'st outcome" where
  "deleteTodoHandler e send ev st =
     (case claims_sub ev of
        None \<Rightarrow> returning st unauthorized
      | Some userId \<Rightarrow>
          if userId = [] then returning st unauthorized
          else
            (case path_id ev of
               Inl error \<Rightarrow> returning st (delete_catch error)
             | Inr None \<Rightarrow> returning st (generateResponse 400 (message ''To-Do ID is required.''))
             | Inr (Some todoId) \<Rightarrow>
                 if todoId = [] then
                   returning st (generateResponse 400 (message ''To-Do ID is required.''))
                 else
                   (let cmd = DeleteCommand (TODOS_TABLE_NAME e)
                                [(''userId'', JStr userId), (''todoId'', JStr todoId)] ''ALL_OLD''
                    in
                      (case send cmd st of
                         (Inl error, st') \<Rightarrow>
                           \<lparr> resp = delete_catch error, issued = [cmd], store = st' \<rparr>
                       | (Inr data, st') \<Rightarrow>
                           (case Attributes data of
                              None \<Rightarrow>
                                \<lparr> resp = generateResponse 404
                                    (message ''To-Do item not found or unauthorized to delete.''),
                                  issued = [cmd], store = st' \<rparr>
                            | Some attrs \<Rightarrow>
                                \<lparr> resp = generateResponse 200
                                    (message ''To-Do item deleted successfully.''),
                                  issued = [cmd], store = st' \<rparr>)))))"

section \<open>The table behind the document client\<close>

text \<open>
  The handlers send their commands to a DynamoDB table whose key schema is the partition
  key \<^verbatim>\<open>userId\<close> and the sort key \<^verbatim>\<open>todoId\<close>, both of type string
  (\<^verbatim>\<open>utils/setupDynamo.js\<close>). The table is the list of its items by key. The service
  is not part of the repository; \<open>dynamo_send\<close> follows the DynamoDB API reference for the
  commands the handlers build:
  \<^item> PutItem writes the item, replacing the one with the same key;
  \<^item> UpdateItem without a condition expression edits the attributes of the item with the
    given key, \<^emph>\<open>or adds a new item to the table if it does not already exist\<close>;
    \<^verbatim>\<open>ALL_NEW\<close> returns the item as it is after the update;
  \<^item> DeleteItem removes the item with the given key if there is one; \<^verbatim>\<open>ALL_OLD\<close>
    returns the item that was removed, and nothing when no item had the key;
  \<^item> Query with \<^verbatim>\<open>userId = :u\<close> returns the items of that partition;
  \<^item> a command without \<^verbatim>\<open>TableName\<close>, a key that is not exactly the two string
    attributes of the schema, a key value that is empty or longer than the service allows
    (2048 bytes for the partition key, 1024 bytes for the sort key, in UTF-8), and an
    empty \<^verbatim>\<open>ExpressionAttributeNames\<close> map are rejected with a ValidationException
    and leave the table as it is.
  Update expressions are read in the shape the handler writes them:
  \<^verbatim>\<open>SET lhs = :v, lhs = :v\<close>, where \<open>lhs\<close> is an attribute name or a
  \<^verbatim>\<open>#alias\<close>. The table that \<^verbatim>\<open>TableName\<close> names is taken to exist, and the
  state is its content. The order of a query result, other values of
  \<^verbatim>\<open>ReturnValues\<close>, the limit on the size of an item, and faults of the service
  (throttling, outages, missing permissions) are not modelled: statements about every
  request are made for an arbitrary store client, and \<open>dynamo_send\<close> is run on
  concrete requests only. The messages of the rejections are shortened; none of them
  but \<open>key_schema_mismatch\<close> contains the text the update handler looks for.
\<close>

type_synonym table = "((string \<times> string) \<times> obj) list"

definition key_attributes :: "obj \<Rightarrow> (string \<times> string) option" where
  "key_attributes item =
     (case (map_of item ''userId'', map_of item ''todoId'') of
        (Some (JStr u), Some (JStr t)) \<Rightarrow> Some (u, t)
      | _ \<Rightarrow> None)"

definition key_of :: "obj \<Rightarrow> (string \<times> string) option" where
  "key_of k = (if length k = 2 then key_attributes k else None)"

text \<open>
  The size of a key value in UTF-8: a code unit below 128 is one byte, one from 128 to 255
  is two.
\<close>

definition utf8_size :: "string \<Rightarrow> nat" where
  "utf8_size s = length s + length (filter (\<lambda>c. 128 \<le> (of_char c :: nat)) s)"

definition key_size_ok :: "string \<times> string \<Rightarrow> bool" where
  "key_size_ok k =
     (1 \<le> utf8_size (fst k) \<and> utf8_size (fst k) \<le> 2048 \<and>
      1 \<le> utf8_size (snd k) \<and> utf8_size (snd k) \<le> 1024)"

fun split_comma :: "string \<Rightarrow> string list" where
  "split_comma (c1 # c2 # cs) =
     (if c1 = CHR '','' \<and> c2 = CHR '' '' then [] # split_comma cs
      else (case split_comma (c2 # cs) of [] \<Rightarrow> [[c1]] | w # ws \<Rightarrow> (c1 # w) # ws))"
| "split_comma cs = [cs]"

fun split_assign :: "string \<Rightarrow> (string \<times> string) option" where
  "split_assign (c1 # c2 # c3 # cs) =
     (if c1 = CHR '' '' \<and> c2 = CHR ''='' \<and> c3 = CHR '' '' then Some ([], cs)
      else map_option (\<lambda>(l, r). (c1 # l, r)) (split_assign (c2 # c3 # cs)))"
| "split_assign cs = None"

definition resolve_name :: "(string \<times> string) list \<Rightarrow> string \<Rightarrow> string option" where
  "resolve_name names lhs = (if starts_with lhs ''#'' then map_of names lhs else Some lhs)"

definition apply_set :: "(string \<times> string) list \<Rightarrow> obj \<Rightarrow> string \<Rightarrow> obj \<Rightarrow> obj option" where
  "apply_set names vals clause item =
     (case split_assign clause of
        None \<Rightarrow> None
      | Some (lhs, rhs) \<Rightarrow>
          (case (resolve_name names lhs, map_of vals rhs) of
             (Some attr, Some v) \<Rightarrow> Some (AList.update attr v item)
           | _ \<Rightarrow> None))"

fun apply_sets :: "(string \<times> string) list \<Rightarrow> obj \<Rightarrow> string list \<Rightarrow> obj \<Rightarrow> obj option" where
  "apply_sets names vals [] item = Some item"
| "apply_sets names vals (c # cs) item =
     (case apply_set names vals c item of
        None \<Rightarrow> None
      | Some item' \<Rightarrow> apply_sets names vals cs item')"

definition apply_update :: "string \<Rightarrow> (string \<times> string) list \<Rightarrow> obj \<Rightarrow> obj \<Rightarrow> obj option" where
  "apply_update expr names vals item =
     (if starts_with expr ''SET '' then apply_sets names vals (split_comma (drop 4 expr)) item
      else None)"

definition validation_exception :: "string \<Rightarrow> js_error" where
  "validation_exception m = StoreError ''ValidationException'' m"

definition key_schema_mismatch :: js_error where
  "key_schema_mismatch =
     validation_exception ''The provided key element does not match the schema''"

definition invalid_parameter :: js_error where
  "invalid_parameter = validation_exception ''One or more parameter values were invalid''"

definition missing_table_name :: js_error where
  "missing_table_name =
     validation_exception ''Value null at 'tableName' failed to satisfy constraint''"

definition no_output :: send_output where
  "no_output = \<lparr> Attributes = None, Items = None \<rparr>"

fun dynamo_send :: "table sender" where
  "dynamo_send (PutCommand tn item) tbl =
     (if tn = None then (Inl missing_table_name, tbl)
      else
        (case key_attributes item of
           None \<Rightarrow> (Inl invalid_parameter, tbl)
         | Some k \<Rightarrow>
             if key_size_ok k then (Inr no_output, AList.update k item tbl)
             else (Inl invalid_parameter, tbl)))"
| "dynamo_send (QueryCommand tn cond vals) tbl =
     (if tn = None then (Inl missing_table_name, tbl)
      else if cond = ''userId = :u'' then
        (case map_of vals '':u'' of
           Some (JStr u) \<Rightarrow>
             if 1 \<le> utf8_size u \<and> utf8_size u \<le> 2048 then
               (Inr (no_output
                      \<lparr> Items := Some (map snd (filter (\<lambda>(k, item). fst k = u) tbl)) \<rparr>),
                tbl)
             else (Inl invalid_parameter, tbl)
         | _ \<Rightarrow> (Inl (validation_exception ''Invalid KeyConditionExpression''), tbl))
      else (Inl (validation_exception ''Invalid KeyConditionExpression''), tbl))"
| "dynamo_send (UpdateCommand tn key expr vals rv names) tbl =
     (if tn = None then (Inl missing_table_name, tbl)
      else if names = [] then
        (Inl (validation_exception ''ExpressionAttributeNames must not be empty''), tbl)
      else
        (case key_of key of
           None \<Rightarrow> (Inl key_schema_mismatch, tbl)
         | Some k \<Rightarrow>
             if key_size_ok k then
               (let old = map_of tbl k;
                    base = (case old of None \<Rightarrow> key | Some item \<Rightarrow> item)
                in
                  (case apply_update expr names vals base of
                     None \<Rightarrow> (Inl (validation_exception ''Invalid UpdateExpression''), tbl)
                   | Some new \<Rightarrow>
                       (Inr (no_output \<lparr> Attributes :=
                               (if rv = ''ALL_NEW'' then Some new
                                else if rv = ''ALL_OLD'' then old else None) \<rparr>),
                        AList.update k new tbl)))
             else (Inl invalid_parameter, tbl)))"
| "dynamo_send (DeleteCommand tn key rv) tbl =
     (if tn = None then (Inl missing_table_name, tbl)
      else
        (case key_of key of
           None \<Rightarrow> (Inl key_schema_mismatch, tbl)
         | Some k \<Rightarrow>
             if key_size_ok k then
               (Inr (no_output
                      \<lparr> Attributes := (if rv = ''ALL_OLD'' then map_of tbl k else None) \<rparr>),
                AList.delete k tbl)
             else (Inl invalid_parameter, tbl)))"

text \<open>
  The command that \<^verbatim>\<open>deleteTodoHandler\<close> builds (lines 323 to 330), and what it is
  for a store client to serve a delete at key \<open>k\<close> in the state \<open>tbl\<close>: the client
  accepts the command, returns the record that was at the key, if any, and leaves the
  table without it.
\<close>

definition delete_command :: "env \<Rightarrow> string \<Rightarrow> string \<Rightarrow> command" where
  "delete_command e userId todoId =
     DeleteCommand (TODOS_TABLE_NAME e)
       [(''userId'', JStr userId), (''todoId'', JStr todoId)] ''ALL_OLD''"

definition serves_delete :: "table sender \<Rightarrow> command \<Rightarrow> string \<times> string \<Rightarrow> table \<Rightarrow> bool" where
  "serves_delete send cmd k tbl =
     (case send cmd tbl of
        (Inl err, tbl') \<Rightarrow> False
      | (Inr data, tbl') \<Rightarrow> Attributes data = map_of tbl k \<and> tbl' = AList.delete k tbl)"

section \<open>Sample requests\<close>

text \<open>
  Concrete inputs for the instances below. \<open>demo_parse\<close> agrees with
  \<^verbatim>\<open>JSON.parse\<close> on the texts it lists, which are the only well-formed texts the
  instances use; \<^verbatim>\<open>{oops\<close>, which it rejects, is not a JSON text.
\<close>

definition demo_parse :: "string \<Rightarrow> jsval option" where
  "demo_parse =
     map_of
       [(''{\"foo\":1}'', JObj [(''foo'', JNum 1)]),
        (''{\"status\":\"completed\"}'', JObj [(''status'', JStr ''completed'')]),
        (''{\"title\":\"Buy milk\"}'', JObj [(''title'', JStr ''Buy milk'')]),
        (''{\"title\":\"Buy milk\",\"description\":\"2 litres\"}'',
         JObj [(''title'', JStr ''Buy milk''), (''description'', JStr ''2 litres'')]),
        (''{\"title\":\"Buy milk\",\"description\":0}'',
         JObj [(''title'', JStr ''Buy milk''), (''description'', JNum 0)])]"

definition demo_env :: env where
  "demo_env =
     \<lparr> JSON_parse = demo_parse, uuidv4 = ''id-1'',
       toISOString = ''2025-01-01T00:00:00.000Z'', TODOS_TABLE_NAME = Some ''Todos'' \<rparr>"

definition demo_context :: "string \<Rightarrow> request_context option" where
  "demo_context u = Some \<lparr> authorizer = Some \<lparr> claims = Some [(''sub'', u)] \<rparr> \<rparr>"

definition demo_event :: "string \<Rightarrow> string \<Rightarrow> body_field \<Rightarrow> event" where
  "demo_event u i b =
     \<lparr> requestContext = demo_context u, pathParameters = Some [(''id'', i)], body = b \<rparr>"

definition anonymous_event :: event where
  "anonymous_event =
     \<lparr> requestContext = None, pathParameters = Some [(''id'', ''X'')],
       body = BodyText ''{\"title\":\"Buy milk\"}'' \<rparr>"

definition demo_item :: obj where
  "demo_item =
     [(''userId'', JStr ''U1''), (''todoId'', JStr ''X''), (''title'', JStr ''Buy milk''),
      (''description'', JStr []), (''status'', JStr ''pending''),
      (''createdAt'', JStr ''2024-12-31T00:00:00.000Z''),
      (''updatedAt'', JStr ''2024-12-31T00:00:00.000Z'')]"

definition demo_table :: table where
  "demo_table = [((''U1'', ''X''), demo_item)]"

text \<open>An item id of 1025 bytes, one more than a sort key may have.\<close>

definition long_id :: string where
  "long_id = replicate 1025 (CHR ''a'')"

text \<open>A store client that rejects every command with the given error.\<close>

definition failing_send :: "js_error \<Rightarrow> unit sender" where
  "failing_send err cmd st = (Inl err, st)"

text \<open>
  A body that is not a JSON document: a text the parser rejects, or no body at all
  (\<^verbatim>\<open>undefined\<close> or \<^verbatim>\<open>null\<close>).
\<close>

definition not_a_json_document :: "env \<Rightarrow> body_field \<Rightarrow> bool" where
  "not_a_json_document e b = (case b of BodyText s \<Rightarrow> JSON_parse e s = None | _ \<Rightarrow> True)"

section \<open>Properties of the handlers\<close>

lemmas handler_defs =
  createTodoHandler_def getTodosHandler_def updateTodoHandler_def deleteTodoHandler_def
  returning_def unauthorized_def generateResponse_def message_def

lemmas update_defs =
  build_update_def add_title_def add_description_def add_status_def add_updatedAt_def
  push_field_def update_command_def update_catch_def

lemmas dynamo_defs =
  key_of_def key_attributes_def key_size_ok_def utf8_size_def
  apply_update_def apply_set_def resolve_name_def
  no_output_def validation_exception_def key_schema_mismatch_def

lemmas demo_defs =
  demo_env_def demo_event_def demo_context_def demo_parse_def
  claims_sub_def path_id_def JSON_parse_body_def

lemma delete_absent: "map_of tbl k = None \<Longrightarrow> AList.delete k tbl = tbl"
  by (simp add: map_of_eq_None_iff)

lemma statusCode_generateResponse: "statusCode (generateResponse c b) = c"
  by (simp add: generateResponse_def)

lemma res_body_generateResponse: "res_body (generateResponse c b) = b"
  by (simp add: generateResponse_def)

lemma issued_returning: "issued (returning st r) = []"
  by (simp add: returning_def)

lemma update_issued_cases:
  assumes sent: "issued (updateTodoHandler e send ev st) = [cmd]"
  obtains userId todoId requestBody b where
    "claims_sub ev = Some userId" "userId \<noteq> []"
    "path_id ev = Inr (Some todoId)" "todoId \<noteq> []"
    "JSON_parse_body e (body ev) = Inr requestBody" "\<not> nullish requestBody"
    "build_update e requestBody = Inr b"
proof -
  obtain userId where u: "claims_sub ev = Some userId" "userId \<noteq> []"
    using sent
    by (cases "claims_sub ev"; cases "the (claims_sub ev) = []")
       (simp_all add: updateTodoHandler_def issued_returning)
  obtain todoId where i: "path_id ev = Inr (Some todoId)"
    using sent u
    by (cases "path_id ev"; cases "projr (path_id ev)")
       (simp_all add: updateTodoHandler_def issued_returning)
  have i': "todoId \<noteq> []"
    using sent u i by (cases "todoId = []") (simp_all add: updateTodoHandler_def issued_returning)
  obtain requestBody where p: "JSON_parse_body e (body ev) = Inr requestBody"
    using sent u i i'
    by (cases "JSON_parse_body e (body ev)") (simp_all add: updateTodoHandler_def issued_returning)
  have n: "\<not> nullish requestBody"
    using sent u i i' p
    by (cases "nullish requestBody") (simp_all add: updateTodoHandler_def issued_returning)
  obtain b where b: "build_update e requestBody = Inr b"
    using sent u i i' p n
    by (cases "build_update e requestBody") (simp_all add: updateTodoHandler_def issued_returning)
  from u i i' p n b show ?thesis by (rule that)
qed

text \<open>
  C1. The claim: an update whose body has none of \<^verbatim>\<open>title\<close>,
  \<^verbatim>\<open>description\<close>, \<^verbatim>\<open>status\<close> is answered with status 400 and the message
  \<^verbatim>\<open>No valid fields provided for update.\<close>, and nothing is sent to the store.
  The code pushes \<^verbatim>\<open>updatedAt = :ua\<close> before it tests the length of
  \<^verbatim>\<open>updateExpressions\<close>, so the test never fires: for the body
  \<^verbatim>\<open>{"foo":1}\<close> and whatever the store client does, the handler sends an UpdateCommand
  that sets only \<^verbatim>\<open>updatedAt\<close>, and its answer is not the "no valid fields" message.
\<close>

theorem update_unrecognized_fields_reach_store:
  "issued (updateTodoHandler demo_env send
             (demo_event ''U1'' ''X'' (BodyText ''{\"foo\":1}'')) st)
     = [UpdateCommand (Some ''Todos'') [(''userId'', JStr ''U1''), (''todoId'', JStr ''X'')]
          ''SET updatedAt = :ua'' [('':ua'', JStr ''2025-01-01T00:00:00.000Z'')] ''ALL_NEW'' []]
   \<and> res_body (resp (updateTodoHandler demo_env send
             (demo_event ''U1'' ''X'' (BodyText ''{\"foo\":1}'')) st))
     \<noteq> message ''No valid fields provided for update.''"
  by (simp add: handler_defs update_defs demo_defs Let_def
      split: prod.splits sum.splits option.splits)

text \<open>
  The same for every request. The validators reject a request with one of three messages;
  \<open>add_updatedAt\<close> never rejects, so no update request at all is answered with the
  "no valid fields" message, and a body without a recognised field always goes to the
  store.
\<close>

lemma build_update_rejections:
  assumes "build_update e requestBody = Inl r"
  shows "res_body r \<in> {message ''Title must be a non-empty string.'',
                         message ''Description must be a string.'',
                         message ''Status must be 'pending' or 'completed'.''}"
  using assms
  by (auto simp: build_update_def add_title_def add_description_def add_status_def
        add_updatedAt_def res_body_generateResponse Let_def
      split: sum.splits if_splits)

lemma update_never_no_valid_fields:
  "res_body (resp (updateTodoHandler e send ev st))
     \<noteq> message ''No valid fields provided for update.''"
  by (auto simp: updateTodoHandler_def returning_def update_catch_def unauthorized_def
        res_body_generateResponse message_def Let_def
      split: option.splits sum.splits prod.splits
      dest!: build_update_rejections)

lemma update_only_unrecognized_fields_sends:
  assumes "claims_sub ev = Some userId" "userId \<noteq> []"
    and "path_id ev = Inr (Some todoId)" "todoId \<noteq> []"
    and "JSON_parse_body e (body ev) = Inr requestBody" "\<not> nullish requestBody"
    and "property requestBody ''title'' = JUndefined"
        "property requestBody ''description'' = JUndefined"
        "property requestBody ''status'' = JUndefined"
  shows "issued (updateTodoHandler e send ev st)
     = [UpdateCommand (TODOS_TABLE_NAME e)
          [(''userId'', JStr userId), (''todoId'', JStr todoId)]
          ''SET updatedAt = :ua'' [('':ua'', JStr (toISOString e))] ''ALL_NEW'' []]"
  using assms
  by (cases "send (UpdateCommand (TODOS_TABLE_NAME e)
          [(''userId'', JStr userId), (''todoId'', JStr todoId)]
          ''SET updatedAt = :ua'' [('':ua'', JStr (toISOString e))] ''ALL_NEW'' []) st")
     (simp add: updateTodoHandler_def build_update_def add_title_def add_description_def
        add_status_def add_updatedAt_def update_command_def Let_def
      split: sum.splits option.splits)

text \<open>
  C2. The claim: an update at a key \<open>(owner, id)\<close> that holds no record is answered with
  status 404 and leaves the store as it was. The command the handler builds carries no
  condition expression, and an unconditional UpdateItem adds the item when the key is
  new: on the empty table the update of \<open>(U1, X)\<close> with \<^verbatim>\<open>{"status":"completed"}\<close>
  is answered with status 200 and the table then holds a record at that key.
\<close>

theorem update_missing_record_is_created:
  "map_of ([] :: table) (''U1'', ''X'') = None
   \<and> statusCode (resp (updateTodoHandler demo_env dynamo_send
         (demo_event ''U1'' ''X'' (BodyText ''{\"status\":\"completed\"}'')) [])) = 200
   \<and> store (updateTodoHandler demo_env dynamo_send
         (demo_event ''U1'' ''X'' (BodyText ''{\"status\":\"completed\"}'')) [])
       = [((''U1'', ''X''),
           [(''userId'', JStr ''U1''), (''todoId'', JStr ''X''), (''status'', JStr ''completed''),
            (''updatedAt'', JStr ''2025-01-01T00:00:00.000Z'')])]"
  by (simp add: handler_defs update_defs demo_defs dynamo_defs Let_def)

text \<open>
  The same in the table model for every table and every update request that passes
  validation, names at least one recognised field, and has a table name and a key of
  admissible size: every update expression the handler builds applies, so at a key
  without a record the answer is 200, a record is created there, and no other key changes.
\<close>

lemma build_update_applies:
  assumes "build_update e requestBody = Inr b"
  shows "\<exists>new. apply_update (''SET '' @ join '', '' (updateExpressions b))
           (expressionAttributeNames b) (expressionAttributeValues b) item = Some new"
  using assms
  by (auto simp: build_update_def add_title_def add_description_def add_status_def
        add_updatedAt_def push_field_def apply_update_def apply_set_def resolve_name_def Let_def
      split: sum.splits if_splits)

lemma update_absent_key_is_created:
  assumes owner: "claims_sub ev = Some userId" "userId \<noteq> []"
    and ident: "path_id ev = Inr (Some todoId)" "todoId \<noteq> []"
    and parsed: "JSON_parse_body e (body ev) = Inr requestBody" "\<not> nullish requestBody"
    and built: "build_update e requestBody = Inr b" "expressionAttributeNames b \<noteq> []"
    and accepted: "TODOS_TABLE_NAME e = Some tn" "key_size_ok (userId, todoId)"
    and absent: "map_of tbl (userId, todoId) = None"
  shows "statusCode (resp (updateTodoHandler e dynamo_send ev tbl)) = 200
       \<and> map_of (store (updateTodoHandler e dynamo_send ev tbl)) (userId, todoId) \<noteq> None
       \<and> (\<forall>k. k \<noteq> (userId, todoId) \<longrightarrow>
             map_of (store (updateTodoHandler e dynamo_send ev tbl)) k = map_of tbl k)"
proof -
  obtain new where new:
    "apply_update (''SET '' @ join '', '' (updateExpressions b))
       (expressionAttributeNames b) (expressionAttributeValues b)
       [(''userId'', JStr userId), (''todoId'', JStr todoId)] = Some new"
    using build_update_applies [OF built(1)] by blast
  have sent: "dynamo_send (update_command e userId todoId b) tbl
      = (Inr (no_output \<lparr> Attributes := Some new \<rparr>), AList.update (userId, todoId) new tbl)"
    using built(2) accepted absent new
    by (simp add: update_command_def key_of_def key_attributes_def)
  show ?thesis
    using owner ident parsed built(1) sent
    by (simp add: updateTodoHandler_def Let_def no_output_def statusCode_generateResponse
          update_conv')
qed

text \<open>
  What the handler itself does with the store's answer: an output without
  \<^verbatim>\<open>Attributes\<close> is answered with status 404, and the handler sends nothing else.
\<close>

lemma update_without_attributes_is_404:
  assumes "issued (updateTodoHandler e send ev st) = [cmd]"
    and "send cmd st = (Inr data, st')" "Attributes data = None"
  shows "statusCode (resp (updateTodoHandler e send ev st)) = 404
       \<and> store (updateTodoHandler e send ev st) = st'"
proof -
  from assms(1) obtain userId todoId requestBody b where pre:
    "claims_sub ev = Some userId" "userId \<noteq> []"
    "path_id ev = Inr (Some todoId)" "todoId \<noteq> []"
    "JSON_parse_body e (body ev) = Inr requestBody" "\<not> nullish requestBody"
    "build_update e requestBody = Inr b"
    by (rule update_issued_cases)
  have cmd: "cmd = update_command e userId todoId b"
    using assms(1) pre
    by (cases "send (update_command e userId todoId b) st")
       (simp add: updateTodoHandler_def Let_def split: sum.splits option.splits)
  show ?thesis
    using pre assms(2,3) cmd
    by (simp add: updateTodoHandler_def Let_def statusCode_generateResponse)
qed

text \<open>
  C3. The claim: when the item with id \<open>X\<close> belongs to owner \<open>A\<close>, an update or delete
  of \<open>X\<close> by another owner \<open>B\<close> is answered with status 404 and leaves the item of \<open>A\<close>
  unchanged. For delete that holds whenever \<open>B\<close> has no record with that id and the
  store serves the command. For update
  the item of \<open>A\<close> is indeed untouched, but the answer is 200 and a second record appears
  under \<open>(B, X)\<close>: here \<open>A = U1\<close>, \<open>B = U2\<close>.
\<close>

theorem update_foreign_id_creates_record:
  "map_of demo_table (''U1'', ''X'') = Some demo_item
   \<and> map_of demo_table (''U2'', ''X'') = None
   \<and> statusCode (resp (updateTodoHandler demo_env dynamo_send
         (demo_event ''U2'' ''X'' (BodyText ''{\"status\":\"completed\"}'')) demo_table)) = 200
   \<and> store (updateTodoHandler demo_env dynamo_send
         (demo_event ''U2'' ''X'' (BodyText ''{\"status\":\"completed\"}'')) demo_table)
       = [((''U1'', ''X''), demo_item),
          ((''U2'', ''X''),
           [(''userId'', JStr ''U2''), (''todoId'', JStr ''X''), (''status'', JStr ''completed''),
            (''updatedAt'', JStr ''2025-01-01T00:00:00.000Z'')])]"
  by (simp add: handler_defs update_defs demo_defs dynamo_defs demo_table_def Let_def)

text \<open>
  C4. A create request with a subject, a title that is a string and not blank after
  trimming, and a description that is missing or a string, whose write the store accepts,
  is answered with status 201. The item in the answer is the item written; its status is
  \<^verbatim>\<open>pending\<close>, \<^verbatim>\<open>createdAt\<close> and \<^verbatim>\<open>updatedAt\<close> are the same time stamp, the
  description is the given one or the empty string, the owner is the subject and the id
  is the one \<^verbatim>\<open>uuidv4()\<close> returned.
\<close>

theorem create_valid_request_is_201:
  assumes owner: "claims_sub ev = Some userId" "userId \<noteq> []"
    and parsed: "JSON_parse_body e (body ev) = Inr requestBody"
    and title: "property requestBody ''title'' = JStr t" "trim t \<noteq> []"
    and description: "property requestBody ''description'' = JUndefined
                      \<or> property requestBody ''description'' = JStr d"
    and written: "fst (send (PutCommand (TODOS_TABLE_NAME e)
                    (create_item e userId (JStr t) (property requestBody ''description''))) st)
                  = Inr data"
  shows "statusCode (resp (createTodoHandler e send ev st)) = 201
    \<and> (\<exists>todo. property (res_body (resp (createTodoHandler e send ev st))) ''todo'' = JObj todo
        \<and> issued (createTodoHandler e send ev st) = [PutCommand (TODOS_TABLE_NAME e) todo]
        \<and> map_of todo ''status'' = Some (JStr ''pending'')
        \<and> map_of todo ''createdAt'' = Some (JStr (toISOString e))
        \<and> map_of todo ''updatedAt'' = Some (JStr (toISOString e))
        \<and> map_of todo ''title'' = Some (JStr t)
        \<and> map_of todo ''description'' =
            Some (if property requestBody ''description'' = JUndefined then JStr [] else JStr d)
        \<and> map_of todo ''userId'' = Some (JStr userId)
        \<and> map_of todo ''todoId'' = Some (JStr (uuidv4 e)))"
proof -
  have nn: "\<not> nullish requestBody"
    using title(1) by (cases requestBody) auto
  have t: "\<not> falsy (JStr t)" "\<not> blank_or_not_string (JStr t)"
    using title(2) by (auto simp: trim_def)
  obtain st' where s:
    "send (PutCommand (TODOS_TABLE_NAME e)
       (create_item e userId (JStr t) (property requestBody ''description''))) st = (Inr data, st')"
    using written by (metis prod.collapse)
  from description show ?thesis
  proof
    assume u: "property requestBody ''description'' = JUndefined"
    show ?thesis
      using owner parsed title(1) nn t u s
      by (simp add: createTodoHandler_def generateResponse_def create_item_def Let_def)
  next
    assume d: "property requestBody ''description'' = JStr d"
    show ?thesis
      using owner parsed title(1) nn t d s
      by (simp add: createTodoHandler_def generateResponse_def create_item_def Let_def)
  qed
qed

theorem create_valid_request_is_201_witness:
  "statusCode (resp (createTodoHandler demo_env dynamo_send
      (demo_event ''U1'' [] (BodyText ''{\"title\":\"Buy milk\"}'')) [])) = 201
   \<and> property (res_body (resp (createTodoHandler demo_env dynamo_send
      (demo_event ''U1'' [] (BodyText ''{\"title\":\"Buy milk\"}'')) []))) ''todo''
     = JObj [(''userId'', JStr ''U1''), (''todoId'', JStr ''id-1''), (''title'', JStr ''Buy milk''),
             (''description'', JStr []), (''status'', JStr ''pending''),
             (''createdAt'', JStr ''2025-01-01T00:00:00.000Z''),
             (''updatedAt'', JStr ''2025-01-01T00:00:00.000Z'')]
   \<and> statusCode (resp (createTodoHandler demo_env dynamo_send
      (demo_event ''U1'' []
         (BodyText ''{\"title\":\"Buy milk\",\"description\":\"2 litres\"}'')) [])) = 201
   \<and> property (property (res_body (resp (createTodoHandler demo_env dynamo_send
      (demo_event ''U1'' []
         (BodyText ''{\"title\":\"Buy milk\",\"description\":\"2 litres\"}'')) []))) ''todo'')
        ''description''
     = JStr ''2 litres''"
proof -
  let ?ev1 = "demo_event ''U1'' [] (BodyText ''{\"title\":\"Buy milk\"}'')"
  let ?b1 = "JObj [(''title'', JStr ''Buy milk'')]"
  let ?ev2 = "demo_event ''U1'' []
                (BodyText ''{\"title\":\"Buy milk\",\"description\":\"2 litres\"}'')"
  let ?b2 = "JObj [(''title'', JStr ''Buy milk''), (''description'', JStr ''2 litres'')]"
  have o1: "claims_sub ?ev1 = Some ''U1''" and o2: "claims_sub ?ev2 = Some ''U1''"
    by (simp_all add: demo_defs)
  have ne: "''U1'' \<noteq> []" by simp
  have p1: "JSON_parse_body demo_env (body ?ev1) = Inr ?b1"
    and p2: "JSON_parse_body demo_env (body ?ev2) = Inr ?b2"
    by (simp_all add: demo_defs)
  have t1: "property ?b1 ''title'' = JStr ''Buy milk''"
    and t2: "property ?b2 ''title'' = JStr ''Buy milk''"
    by simp_all
  have tr: "trim ''Buy milk'' \<noteq> []"
    by (simp add: trim_def is_white_space_def)
  have d1: "property ?b1 ''description'' = JUndefined
            \<or> property ?b1 ''description'' = JStr []"
    and d2: "property ?b2 ''description'' = JUndefined
            \<or> property ?b2 ''description'' = JStr ''2 litres''"
    by simp_all
  have w1: "fst (dynamo_send (PutCommand (TODOS_TABLE_NAME demo_env)
              (create_item demo_env ''U1'' (JStr ''Buy milk'') (property ?b1 ''description''))) [])
            = Inr no_output"
    and w2: "fst (dynamo_send (PutCommand (TODOS_TABLE_NAME demo_env)
              (create_item demo_env ''U1'' (JStr ''Buy milk'') (property ?b2 ''description''))) [])
            = Inr no_output"
    by (simp_all add: create_item_def demo_env_def key_attributes_def key_size_ok_def
          utf8_size_def Let_def)
  from create_valid_request_is_201
         [where send = dynamo_send and st = "[]" and d = "[]", OF o1 ne p1 t1 tr d1 w1]
       create_valid_request_is_201
         [where send = dynamo_send and st = "[]" and d = "''2 litres''", OF o2 ne p2 t2 tr d2 w2]
  show ?thesis
    by (simp add: handler_defs demo_defs dynamo_defs create_item_def trim_def is_white_space_def
          Let_def)
qed

text \<open>
  C5. The claim: a create request whose description is present and not a string, any
  falsy value included, is answered with status 400 and writes nothing. The create
  handler tests \<^verbatim>\<open>description && typeof description !== 'string'\<close>, so a falsy
  description passes (the update handler tests \<^verbatim>\<open>description !== undefined\<close> and
  rejects it): for \<^verbatim>\<open>{"title":"Buy milk","description":0}\<close> the handler sends a
  PutCommand whose item has the empty description, and the answer is 201.
\<close>

theorem create_falsy_description_is_written:
  "issued (createTodoHandler demo_env send
      (demo_event ''U1'' [] (BodyText ''{\"title\":\"Buy milk\",\"description\":0}'')) st)
     = [PutCommand (Some ''Todos'')
          [(''userId'', JStr ''U1''), (''todoId'', JStr ''id-1''), (''title'', JStr ''Buy milk''),
           (''description'', JStr []), (''status'', JStr ''pending''),
           (''createdAt'', JStr ''2025-01-01T00:00:00.000Z''),
           (''updatedAt'', JStr ''2025-01-01T00:00:00.000Z'')]]
   \<and> statusCode (resp (createTodoHandler demo_env dynamo_send
      (demo_event ''U1'' [] (BodyText ''{\"title\":\"Buy milk\",\"description\":0}'')) [])) = 201"
  by (simp add: handler_defs demo_defs dynamo_defs create_item_def trim_def is_white_space_def
        Let_def split: prod.splits sum.splits)

text \<open>
  The same for every request whose title is valid and whose description is falsy, a
  string or not: the item is written with the empty description.
\<close>

lemma create_falsy_description_passes:
  assumes "claims_sub ev = Some userId" "userId \<noteq> []"
    and "JSON_parse_body e (body ev) = Inr requestBody"
    and "property requestBody ''title'' = JStr t" "trim t \<noteq> []"
    and "falsy (property requestBody ''description'')"
  shows "issued (createTodoHandler e send ev st)
     = [PutCommand (TODOS_TABLE_NAME e)
         [(''userId'', JStr userId), (''todoId'', JStr (uuidv4 e)), (''title'', JStr t),
          (''description'', JStr []), (''status'', JStr ''pending''),
          (''createdAt'', JStr (toISOString e)), (''updatedAt'', JStr (toISOString e))]]"
proof -
  have nn: "\<not> nullish requestBody"
    using assms(4) by (cases requestBody) auto
  have t: "\<not> falsy (JStr t)" "\<not> blank_or_not_string (JStr t)"
    using assms(5) by (auto simp: trim_def)
  show ?thesis
    using assms nn t
    by (cases "send (PutCommand (TODOS_TABLE_NAME e)
         [(''userId'', JStr userId), (''todoId'', JStr (uuidv4 e)), (''title'', JStr t),
          (''description'', JStr []), (''status'', JStr ''pending''),
          (''createdAt'', JStr (toISOString e)), (''updatedAt'', JStr (toISOString e))]) st")
       (simp add: createTodoHandler_def create_item_def Let_def split: sum.splits)
qed

text \<open>
  C6. The claim: an update or delete request with a subject and no item id, the
  path-parameters object itself being absent included, is answered with status 400.
  The handlers read \<^verbatim>\<open>event.pathParameters.id\<close> without the optional chaining they
  use for the subject: with no path-parameters object the read throws, the
  \<^verbatim>\<open>catch\<close> block answers, and the status is 500 for every body and store.
\<close>

theorem missing_path_parameters_is_500:
  "statusCode (resp (updateTodoHandler e send
      \<lparr> requestContext = demo_context ''U1'', pathParameters = None, body = b \<rparr> st)) = 500
   \<and> statusCode (resp (deleteTodoHandler e send
      \<lparr> requestContext = demo_context ''U1'', pathParameters = None, body = b \<rparr> st)) = 500"
  by (simp add: handler_defs update_catch_def delete_catch_def demo_context_def claims_sub_def
        path_id_def)

text \<open>
  With a path-parameters object that has no \<^verbatim>\<open>id\<close>, or an empty one, both handlers
  answer 400 and send nothing.
\<close>

lemma missing_id_is_400:
  assumes "claims_sub ev = Some userId" "userId \<noteq> []"
    and "path_id ev = Inr None \<or> path_id ev = Inr (Some [])"
  shows "statusCode (resp (updateTodoHandler e send ev st)) = 400
       \<and> issued (updateTodoHandler e send ev st) = []
       \<and> statusCode (resp (deleteTodoHandler e send ev st)) = 400
       \<and> issued (deleteTodoHandler e send ev st) = []"
  using assms by (auto simp: handler_defs)

text \<open>
  C7. When the update handler has sent its command and the store client rejects it: if
  the error is a ValidationException whose message contains
  \<^verbatim>\<open>The provided key element does not match the schema\<close> the status is 400; for every
  other error the response is one fixed response with status 500, the same whatever the
  error says.
\<close>

theorem update_store_failure_status:
  assumes reached: "issued (updateTodoHandler e send ev st) = [cmd]"
    and failed: "fst (send cmd st) = Inl err"
  shows "(is_key_schema_mismatch err \<longrightarrow>
            statusCode (resp (updateTodoHandler e send ev st)) = 400)
       \<and> (\<not> is_key_schema_mismatch err \<longrightarrow>
            resp (updateTodoHandler e send ev st)
              = generateResponse 500
                  (message ''Failed to update To-Do item. Please try again later.''))"
proof -
  from reached obtain userId todoId requestBody b where pre:
    "claims_sub ev = Some userId" "userId \<noteq> []"
    "path_id ev = Inr (Some todoId)" "todoId \<noteq> []"
    "JSON_parse_body e (body ev) = Inr requestBody" "\<not> nullish requestBody"
    "build_update e requestBody = Inr b"
    by (rule update_issued_cases)
  have cmd: "cmd = update_command e userId todoId b"
    using reached pre
    by (cases "send (update_command e userId todoId b) st")
       (simp add: updateTodoHandler_def Let_def split: sum.splits option.splits)
  obtain st' where s: "send (update_command e userId todoId b) st = (Inl err, st')"
    using failed cmd by (metis prod.collapse)
  have "resp (updateTodoHandler e send ev st) = update_catch err"
    using pre s by (simp add: updateTodoHandler_def Let_def)
  then show ?thesis
    by (simp add: update_catch_def statusCode_generateResponse)
qed

theorem update_store_failure_status_witness:
  "statusCode (resp (updateTodoHandler demo_env (failing_send key_schema_mismatch)
      (demo_event ''U1'' ''X'' (BodyText ''{\"status\":\"completed\"}'')) ())) = 400
   \<and> resp (updateTodoHandler demo_env
        (failing_send (StoreError ''InternalServerError'' ''DynamoDB is down''))
        (demo_event ''U1'' ''X'' (BodyText ''{\"status\":\"completed\"}'')) ())
      = generateResponse 500 (message ''Failed to update To-Do item. Please try again later.'')"
proof -
  let ?ev = "demo_event ''U1'' ''X'' (BodyText ''{\"status\":\"completed\"}'')"
  let ?cmd = "UpdateCommand (Some ''Todos'') [(''userId'', JStr ''U1''), (''todoId'', JStr ''X'')]
                ''SET #s = :s, updatedAt = :ua''
                [('':s'', JStr ''completed''), ('':ua'', JStr ''2025-01-01T00:00:00.000Z'')]
                ''ALL_NEW'' [(''#s'', ''status'')]"
  let ?down = "StoreError ''InternalServerError'' ''DynamoDB is down''"
  have r1: "issued (updateTodoHandler demo_env (failing_send key_schema_mismatch) ?ev ()) = [?cmd]"
    and r2: "issued (updateTodoHandler demo_env (failing_send ?down) ?ev ()) = [?cmd]"
    by (simp_all add: handler_defs update_defs demo_defs failing_send_def Let_def)
  have f1: "fst (failing_send key_schema_mismatch ?cmd ()) = Inl key_schema_mismatch"
    and f2: "fst (failing_send ?down ?cmd ()) = Inl ?down"
    by (simp_all add: failing_send_def)
  have k1: "is_key_schema_mismatch key_schema_mismatch"
    by (simp add: key_schema_mismatch_def validation_exception_def)
  have k2: "\<not> is_key_schema_mismatch ?down"
    by simp
  from update_store_failure_status [OF r1 f1] update_store_failure_status [OF r2 f2] k1 k2
  show ?thesis by simp
qed

text \<open>
  C8, as the claim states it: for every owner and id, deleting at a key that holds no
  record is answered with status 404, not 200 and not 500. The handler answers 404 only
  when the store has served the command; a command the store rejects ends in the
  \<^verbatim>\<open>catch\<close> block (lines 340 to 343), which answers 500. The table \<open>demo_table\<close>
  holds no record for the 1025-byte id \<open>long_id\<close>, nor for \<open>(U2, X)\<close>; the delete of
  \<open>long_id\<close> is rejected for the size of its sort key and the delete of \<open>(U2, X)\<close>
  without a configured table name is rejected for the missing name, and both are answered
  with 500.
\<close>

theorem delete_rejected_is_500:
  "map_of demo_table (''U1'', long_id) = None
   \<and> statusCode (resp (deleteTodoHandler demo_env dynamo_send
         (demo_event ''U1'' long_id BodyNull) demo_table)) = 500
   \<and> map_of demo_table (''U2'', ''X'') = None
   \<and> statusCode (resp (deleteTodoHandler (demo_env \<lparr> TODOS_TABLE_NAME := None \<rparr>) dynamo_send
         (demo_event ''U2'' ''X'' BodyNull) demo_table)) = 500"
proof -
  have len: "length long_id = 1025"
    by (simp add: long_id_def)
  have ne: "long_id \<noteq> []" "long_id \<noteq> ''X''"
  proof -
    show "long_id \<noteq> []"
      using len by auto
    show "long_id \<noteq> ''X''"
    proof
      assume "long_id = ''X''"
      then have "length long_id = length ''X''"
        by (rule arg_cong)
      with len show False by simp
    qed
  qed
  have size: "utf8_size long_id = 1025"
    by (simp add: utf8_size_def long_id_def)
  have a: "map_of demo_table (''U1'', long_id) = None"
    using ne by (simp add: demo_table_def)
  have r: "statusCode (resp (deleteTodoHandler demo_env dynamo_send
         (demo_event ''U1'' long_id BodyNull) demo_table)) = 500"
    using ne size
    by (simp add: handler_defs demo_defs delete_catch_def key_of_def key_attributes_def
          key_size_ok_def)
  have b: "map_of demo_table (''U2'', ''X'') = None"
    by (simp add: demo_table_def)
  have t: "statusCode (resp (deleteTodoHandler (demo_env \<lparr> TODOS_TABLE_NAME := None \<rparr>)
         dynamo_send (demo_event ''U2'' ''X'' BodyNull) demo_table)) = 500"
    by (simp add: handler_defs demo_defs delete_catch_def)
  from a r b t show ?thesis by blast
qed

text \<open>
  Every rejection of the delete command, by any store client, is answered with 500.
\<close>

lemma store_rejection_of_delete_is_500:
  assumes "claims_sub ev = Some userId" "userId \<noteq> []"
    and "path_id ev = Inr (Some todoId)" "todoId \<noteq> []"
    and "send (delete_command e userId todoId) st = (Inl err, st')"
  shows "statusCode (resp (deleteTodoHandler e send ev st)) = 500
       \<and> issued (deleteTodoHandler e send ev st) = [delete_command e userId todoId]
       \<and> store (deleteTodoHandler e send ev st) = st'"
  using assms
  by (simp add: deleteTodoHandler_def delete_command_def delete_catch_def
        statusCode_generateResponse Let_def)

text \<open>
  The table model serves the delete of every key of admissible size once a table name is
  configured.
\<close>

lemma dynamo_send_serves_delete:
  assumes "TODOS_TABLE_NAME e = Some tn" "key_size_ok (userId, todoId)"
  shows "serves_delete dynamo_send (delete_command e userId todoId) (userId, todoId) tbl"
  using assms
  by (simp add: serves_delete_def delete_command_def key_of_def key_attributes_def
        no_output_def)

text \<open>
  C8, amended. For a request with a subject and an id and any store client that serves
  the delete command (accepts it, returns the record at the key if there is one, and
  removes it): deleting at a key that holds no record is answered with status 404 and
  leaves the table as it is; and the table that a served delete leaves holds no record at
  its key, so deleting again, served again, is answered with 404 and changes nothing.
\<close>

theorem delete_absent_is_404:
  assumes owner: "claims_sub ev = Some userId" "userId \<noteq> []"
    and ident: "path_id ev = Inr (Some todoId)" "todoId \<noteq> []"
    and first: "serves_delete send (delete_command e userId todoId) (userId, todoId) tbl"
    and again: "serves_delete send (delete_command e userId todoId) (userId, todoId)
                  (AList.delete (userId, todoId) tbl)"
  shows "(map_of tbl (userId, todoId) = None \<longrightarrow>
            statusCode (resp (deleteTodoHandler e send ev tbl)) = 404
          \<and> store (deleteTodoHandler e send ev tbl) = tbl)
       \<and> statusCode (resp (deleteTodoHandler e send ev
            (store (deleteTodoHandler e send ev tbl)))) = 404
       \<and> store (deleteTodoHandler e send ev (store (deleteTodoHandler e send ev tbl)))
           = store (deleteTodoHandler e send ev tbl)"
proof -
  let ?k = "(userId, todoId)"
  have run: "serves_delete send (delete_command e userId todoId) ?k t \<Longrightarrow>
      store (deleteTodoHandler e send ev t) = AList.delete ?k t
      \<and> (map_of t ?k = None \<longrightarrow> statusCode (resp (deleteTodoHandler e send ev t)) = 404)" for t
    using owner ident
    by (cases "send (delete_command e userId todoId) t")
       (auto simp: serves_delete_def deleteTodoHandler_def delete_command_def
          statusCode_generateResponse Let_def
        split: sum.splits option.splits)
  have gone: "map_of (AList.delete ?k tbl) ?k = None"
    by (simp add: delete_conv)
  have idem: "AList.delete ?k (AList.delete ?k tbl) = AList.delete ?k tbl"
    using gone by (rule delete_absent)
  from run [OF first] run [OF again] gone idem show ?thesis
    by (auto simp: delete_absent)
qed

theorem delete_absent_is_404_witness:
  "map_of demo_table (''U2'', ''X'') = None
   \<and> statusCode (resp (deleteTodoHandler demo_env dynamo_send
        (demo_event ''U2'' ''X'' BodyNull) demo_table)) = 404
   \<and> store (deleteTodoHandler demo_env dynamo_send (demo_event ''U2'' ''X'' BodyNull) demo_table)
       = demo_table
   \<and> statusCode (resp (deleteTodoHandler demo_env dynamo_send
        (demo_event ''U1'' ''X'' BodyNull) demo_table)) = 200
   \<and> statusCode (resp (deleteTodoHandler demo_env dynamo_send (demo_event ''U1'' ''X'' BodyNull)
        (store (deleteTodoHandler demo_env dynamo_send
           (demo_event ''U1'' ''X'' BodyNull) demo_table)))) = 404"
proof -
  have o2: "claims_sub (demo_event ''U2'' ''X'' BodyNull) = Some ''U2''"
    and o1: "claims_sub (demo_event ''U1'' ''X'' BodyNull) = Some ''U1''"
    and i2: "path_id (demo_event ''U2'' ''X'' BodyNull) = Inr (Some ''X'')"
    and i1: "path_id (demo_event ''U1'' ''X'' BodyNull) = Inr (Some ''X'')"
    by (simp_all add: demo_defs)
  have n2: "''U2'' \<noteq> []" and n1: "''U1'' \<noteq> []" and nx: "''X'' \<noteq> []"
    by simp_all
  have tn: "TODOS_TABLE_NAME demo_env = Some ''Todos''"
    by (simp add: demo_env_def)
  have k2: "key_size_ok (''U2'', ''X'')" and k1: "key_size_ok (''U1'', ''X'')"
    by (simp_all add: key_size_ok_def utf8_size_def)
  note s2 = dynamo_send_serves_delete [OF tn k2]
  note s1 = dynamo_send_serves_delete [OF tn k1]
  have absent: "map_of demo_table (''U2'', ''X'') = None"
    by (simp add: demo_table_def)
  have first: "statusCode (resp (deleteTodoHandler demo_env dynamo_send
        (demo_event ''U1'' ''X'' BodyNull) demo_table)) = 200"
    by (simp add: handler_defs demo_defs dynamo_defs demo_table_def Let_def)
  from delete_absent_is_404 [where send = dynamo_send and tbl = demo_table, OF o2 n2 i2 nx s2 s2]
       delete_absent_is_404 [where send = dynamo_send and tbl = demo_table, OF o1 n1 i1 nx s1 s1]
       absent first
  show ?thesis by simp
qed

text \<open>
  C9. A request to any of the four operations whose subject claim is missing (any link
  of \<^verbatim>\<open>requestContext?.authorizer?.claims?.sub\<close> absent) or empty is answered with
  status 401, and no command is sent to the store.
\<close>

theorem missing_subject_is_401:
  assumes "claims_sub ev = None \<or> claims_sub ev = Some []"
  shows "statusCode (resp (createTodoHandler e send ev st)) = 401
       \<and> issued (createTodoHandler e send ev st) = []
       \<and> statusCode (resp (getTodosHandler e send ev st)) = 401
       \<and> issued (getTodosHandler e send ev st) = []
       \<and> statusCode (resp (updateTodoHandler e send ev st)) = 401
       \<and> issued (updateTodoHandler e send ev st) = []
       \<and> statusCode (resp (deleteTodoHandler e send ev st)) = 401
       \<and> issued (deleteTodoHandler e send ev st) = []"
  using assms by (auto simp: handler_defs)

theorem missing_subject_is_401_witness:
  "claims_sub anonymous_event = None
   \<and> statusCode (resp (createTodoHandler demo_env dynamo_send anonymous_event demo_table)) = 401
   \<and> issued (createTodoHandler demo_env dynamo_send anonymous_event demo_table) = []
   \<and> statusCode (resp (getTodosHandler demo_env dynamo_send anonymous_event demo_table)) = 401
   \<and> issued (getTodosHandler demo_env dynamo_send anonymous_event demo_table) = []
   \<and> statusCode (resp (updateTodoHandler demo_env dynamo_send anonymous_event demo_table)) = 401
   \<and> issued (updateTodoHandler demo_env dynamo_send anonymous_event demo_table) = []
   \<and> statusCode (resp (deleteTodoHandler demo_env dynamo_send anonymous_event demo_table)) = 401
   \<and> issued (deleteTodoHandler demo_env dynamo_send anonymous_event demo_table) = []"
proof -
  have h: "claims_sub anonymous_event = None"
    by (simp add: claims_sub_def anonymous_event_def)
  then have "claims_sub anonymous_event = None \<or> claims_sub anonymous_event = Some []"
    by simp
  from missing_subject_is_401 [OF this, of demo_env dynamo_send demo_table] h
  show ?thesis by simp
qed

text \<open>
  C10. A create request with a subject, and an update request with a subject and an id,
  whose body is not a JSON document (a text the parser rejects, or no body) are answered
  with status 500 and the handler's fixed failure message, not with 400, and nothing is
  sent to the store.
\<close>

theorem malformed_body_is_500:
  assumes owner: "claims_sub ev = Some userId" "userId \<noteq> []"
    and invalid: "not_a_json_document e (body ev)"
  shows "resp (createTodoHandler e send ev st)
           = generateResponse 500 (message ''Failed to create To-Do item. Please try again later.'')
       \<and> issued (createTodoHandler e send ev st) = []
       \<and> (path_id ev = Inr (Some todoId) \<and> todoId \<noteq> [] \<longrightarrow>
            resp (updateTodoHandler e send ev st)
              = generateResponse 500
                  (message ''Failed to update To-Do item. Please try again later.'')
          \<and> issued (updateTodoHandler e send ev st) = [])"
  using assms
  by (auto simp: not_a_json_document_def createTodoHandler_def updateTodoHandler_def
        returning_def create_catch_def update_catch_def JSON_parse_body_def
      split: body_field.splits)

theorem malformed_body_is_500_witness:
  "not_a_json_document demo_env (BodyText ''{oops'')
   \<and> statusCode (resp (createTodoHandler demo_env dynamo_send
        (demo_event ''U1'' ''X'' (BodyText ''{oops'')) demo_table)) = 500
   \<and> issued (createTodoHandler demo_env dynamo_send
        (demo_event ''U1'' ''X'' (BodyText ''{oops'')) demo_table) = []
   \<and> statusCode (resp (updateTodoHandler demo_env dynamo_send
        (demo_event ''U1'' ''X'' (BodyText ''{oops'')) demo_table)) = 500
   \<and> issued (updateTodoHandler demo_env dynamo_send
        (demo_event ''U1'' ''X'' (BodyText ''{oops'')) demo_table) = []
   \<and> statusCode (resp (updateTodoHandler demo_env dynamo_send
        (demo_event ''U1'' ''X'' BodyNull) demo_table)) = 500"
proof -
  let ?ev = "demo_event ''U1'' ''X'' (BodyText ''{oops'')"
  let ?evn = "demo_event ''U1'' ''X'' BodyNull"
  have o: "claims_sub ?ev = Some ''U1''" and o0: "claims_sub ?evn = Some ''U1''"
    by (simp_all add: demo_defs)
  have n: "''U1'' \<noteq> []" by simp
  have b: "not_a_json_document demo_env (body ?ev)"
    and b0: "not_a_json_document demo_env (body ?evn)"
    and b': "not_a_json_document demo_env (BodyText ''{oops'')"
    by (simp_all add: not_a_json_document_def demo_defs)
  have i: "path_id ?ev = Inr (Some ''X'') \<and> ''X'' \<noteq> []"
    and i0: "path_id ?evn = Inr (Some ''X'') \<and> ''X'' \<noteq> []"
    by (simp_all add: demo_defs)
  note w = malformed_body_is_500 [OF o n b, of dynamo_send demo_table "''X''"]
  note w0 = malformed_body_is_500 [OF o0 n b0, of dynamo_send demo_table "''X''"]
  from w have c: "statusCode (resp (createTodoHandler demo_env dynamo_send ?ev demo_table)) = 500
      \<and> issued (createTodoHandler demo_env dynamo_send ?ev demo_table) = []"
    by (simp add: generateResponse_def)
  from w i have u: "statusCode (resp (updateTodoHandler demo_env dynamo_send ?ev demo_table)) = 500
      \<and> issued (updateTodoHandler demo_env dynamo_send ?ev demo_table) = []"
    by (simp add: generateResponse_def)
  from w0 i0 have u0:
    "statusCode (resp (updateTodoHandler demo_env dynamo_send ?evn demo_table)) = 500"
    by (simp add: generateResponse_def)
  from b' c u u0 show ?thesis by blast
qed

end
